theory Spec2Isabelle
  imports Complex_Main "HOL-Library.AList"
begin

section \<open>Python values, exceptions and dictionaries\<close>

text \<open>
  The scripts are Python over floats; numbers are modelled as exact reals, so a
  statement about a coefficient is a statement about the value the source's
  arithmetic denotes. Exceptions are values of \<open>py_error\<close>; a computation that
  may raise returns \<open>py_error + 'a\<close>. \<open>Unmodelled\<close> marks the one place where
  the outcome is not a value of this model: a bare string used as a Pyomo index set,
  whose treatment is decided inside Pyomo. The identities proved here are about which
  coefficient stands where; what the rounding of IEEE doubles adds to a sum of quotients
  is not expressed by exact reals and is not part of this development.
\<close>

datatype py_error =
    KeyError | TypeError | UnboundLocalError | NameError | AttributeError | Unmodelled

definition then_do :: "py_error + 'a \<Rightarrow> ('a \<Rightarrow> py_error + 'b) \<Rightarrow> py_error + 'b" where
  "then_do r k = (case r of Inl e \<Rightarrow> Inl e | Inr v \<Rightarrow> k v)"

text \<open>A comprehension or an indexed rule: the body runs once per element, in order,
  and the first exception ends it.\<close>

fun for_each :: "('a \<Rightarrow> py_error + 'b) \<Rightarrow> 'a list \<Rightarrow> py_error + 'b list" where
  "for_each g [] = Inr []"
| "for_each g (a # as) =
     then_do (g a) (\<lambda>b. then_do (for_each g as) (\<lambda>bs. Inr (b # bs)))"

text \<open>A dictionary is an association list in insertion order; \<open>d[k]\<close> raises
  \<open>KeyError\<close> on a missing key.\<close>

definition getitem :: "('k \<times> 'v) list \<Rightarrow> 'k \<Rightarrow> py_error + 'v" where
  "getitem d k = (case map_of d k of None \<Rightarrow> Inl KeyError | Some v \<Rightarrow> Inr v)"

section \<open>Pyomo models as data\<close>

text \<open>
  A model holds its variable families, its objective and its four constraint families
  under the names the source gives them; \<open>mpisppy_node_list\<close> and
  \<open>mpisppy_probability\<close> are the two attributes the mpi-sppy scripts set on a model,
  empty until then.
  \<open>model.x\<close>, \<open>model.w\<close> and \<open>model.y\<close> are the three variable families. An index
  is a key or a tuple of keys, here a list of strings: \<open>model.x["wheat"]\<close> is
  \<open>EVar Var_x [''wheat'']\<close> and \<open>model.w["good","wheat"]\<close> is
  \<open>EVar Var_w [''good'', ''wheat'']\<close>.
\<close>

datatype vgroup = Var_x | Var_w | Var_y

type_synonym index = "string list"

datatype expr =
    ENum real
  | EVar vgroup index
  | EAdd expr expr
  | ESub expr expr
  | EMul expr expr
  | ESum "expr list"

datatype relation = ELe expr expr | EGe expr expr

datatype constr = Constr (c_index: index) (c_rule: relation)

record model =
  var_x :: "index list"
  var_w :: "index list"
  var_y :: "index list"
  m_planting_cost :: "expr option"
  m_selling_cost :: "expr option"
  m_puchasing_cost :: "expr option"
  obj :: expr
  total_acreage_allowed :: "constr list"
  minimum_requirement :: "constr list"
  sugar_beet_mass_balance :: "constr list"
  sugar_beet_quota :: "constr list"
  mpisppy_node_list :: "(expr \<times> vgroup list) list"
  mpisppy_probability :: "real option"

text \<open>\<open>model.x[i]\<close>: the variable at index \<open>i\<close> of a family declared over the
  index list \<open>idxs\<close>; a missing index raises \<open>KeyError\<close>.\<close>

definition getvar :: "vgroup \<Rightarrow> index list \<Rightarrow> index \<Rightarrow> py_error + expr" where
  "getvar g idxs i = (if i \<in> set idxs then Inr (EVar g i) else Inl KeyError)"

type_synonym assignment = "vgroup \<Rightarrow> index \<Rightarrow> real"

fun pyo_value :: "assignment \<Rightarrow> expr \<Rightarrow> real" where
  "pyo_value a (ENum c) = c"
| "pyo_value a (EVar g i) = a g i"
| "pyo_value a (EAdd e1 e2) = pyo_value a e1 + pyo_value a e2"
| "pyo_value a (ESub e1 e2) = pyo_value a e1 - pyo_value a e2"
| "pyo_value a (EMul e1 e2) = pyo_value a e1 * pyo_value a e2"
| "pyo_value a (ESum es) = sum_list (map (pyo_value a) es)"

fun holds :: "assignment \<Rightarrow> relation \<Rightarrow> bool" where
  "holds a (ELe l r) = (pyo_value a l \<le> pyo_value a r)"
| "holds a (EGe l r) = (pyo_value a l \<ge> pyo_value a r)"

definition constraints :: "model \<Rightarrow> constr list" where
  "constraints m =
     total_acreage_allowed m @ minimum_requirement m @ sugar_beet_mass_balance m @ sugar_beet_quota m"

text \<open>The feasible region: every declared variable lies in \<open>NonNegativeReals\<close> and
  every constraint holds.\<close>

definition in_domain :: "model \<Rightarrow> assignment \<Rightarrow> bool" where
  "in_domain m a =
     (list_all (\<lambda>i. 0 \<le> a Var_x i) (var_x m) \<and>
      list_all (\<lambda>i. 0 \<le> a Var_w i) (var_w m) \<and>
      list_all (\<lambda>i. 0 \<le> a Var_y i) (var_y m))"

definition feasible :: "model \<Rightarrow> assignment \<Rightarrow> bool" where
  "feasible m a = (in_domain m a \<and> list_all (\<lambda>c. holds a (c_rule c)) (constraints m))"

section \<open>The Farmer classes\<close>

text \<open>
  \<open>crop_yield\<close> is a flat dictionary crop \<open>\<mapsto>\<close> yield when the instance stands for
  one scenario, and a dictionary weather \<open>\<mapsto>\<close> (crop \<open>\<mapsto>\<close> yield) when it was built
  from a list of weathers. The constructor's argument is a string or a list of strings;
  for a value of any other type it sets no \<open>crop_yield\<close>, and such a value is outside
  \<open>weather_types\<close>.
\<close>

datatype yields =
    Single "(string \<times> real) list"
  | Multi "(string \<times> (string \<times> real) list) list"

datatype weather_types = Str string | Lst "string list"

text \<open>The attributes every Farmer class sets (mpi-sppy/farmer-3-scenarios.py).\<close>

record scenario =
  total_acres :: real
  planting_cost :: "(string \<times> real) list"
  planting_crops :: "string list"
  selling_price :: "(string \<times> real) list"
  selling_crops :: "string list"
  min_requirement :: "(string \<times> real) list"
  purchase_price :: "(string \<times> real) list"
  purchasing_crops :: "string list"
  required_crops :: "string list"
  beets_quota :: real
  crop_yield :: yields

text \<open>mpi-sppy/farmer-n-scenarios-PH.py adds the scenario's probability.\<close>

record scenario_PH = scenario +
  probability :: real

text \<open>examples/farmer-extensive-form.py records the weathers and, once built, the
  models (an attribute not yet assigned is \<open>None\<close>).\<close>

record farmer = scenario +
  weathers :: weather_types
  deterministic_model :: "model option"
  extensive_form_model :: "model option"

text \<open>The three \<open>if\<close> statements that set \<open>predicted_yield\<close>; \<open>py\<close> is the
  variable's value before them (\<open>None\<close>: not bound).\<close>

definition predicted_yield_step :: "real option \<Rightarrow> string \<Rightarrow> real option" where
  "predicted_yield_step py weather =
     (let py1 = (if weather = ''good'' then Some 1.2 else py);
          py2 = (if weather = ''fair'' then Some 1 else py1);
          py3 = (if weather = ''bad'' then Some 0.8 else py2)
      in py3)"

definition yields_at :: "real \<Rightarrow> (string \<times> real) list" where
  "yields_at predicted_yield =
     [(''wheat'', 2.5 * predicted_yield),
      (''corn'', 3 * predicted_yield),
      (''beets'', 20 * predicted_yield)]"

text \<open>The loop over a list of weathers: the local \<open>predicted_yield\<close> survives from
  one iteration to the next.\<close>

fun crop_yield_scenarios ::
  "string list \<Rightarrow> real option \<Rightarrow> (string \<times> (string \<times> real) list) list
     \<Rightarrow> py_error + (string \<times> (string \<times> real) list) list" where
  "crop_yield_scenarios [] py acc = Inr acc"
| "crop_yield_scenarios (weather # rest) py acc =
     (case predicted_yield_step py weather of
        None \<Rightarrow> Inl UnboundLocalError
      | Some p \<Rightarrow>
          crop_yield_scenarios rest (Some p) (AList.update weather (yields_at p) acc))"

text \<open>\<open>Farmer.__init__\<close> of examples/farmer-extensive-form.py.\<close>

definition Farmer_init :: "weather_types \<Rightarrow> py_error + farmer" where
  "Farmer_init weather_types =
     then_do
       (case weather_types of
          Str w \<Rightarrow>
            (case predicted_yield_step None w of
               None \<Rightarrow> Inl UnboundLocalError
             | Some p \<Rightarrow> Inr (Single (yields_at p)))
        | Lst ws \<Rightarrow> then_do (crop_yield_scenarios ws None []) (\<lambda>d. Inr (Multi d)))
       (\<lambda>cy. Inr
          \<lparr> total_acres = 500,
            planting_cost = [(''wheat'', 150), (''corn'', 230), (''beets'', 260)],
            planting_crops = [''wheat'', ''corn'', ''beets''],
            selling_price = [(''wheat'', 170), (''corn'', 150),
                             (''beets_favorable'', 36), (''beets_unfavorable'', 10)],
            selling_crops = [''wheat'', ''corn'', ''beets_favorable'', ''beets_unfavorable''],
            min_requirement = [(''wheat'', 200), (''corn'', 240)],
            purchase_price = [(''wheat'', 238), (''corn'', 210)],
            purchasing_crops = [''wheat'', ''corn''],
            required_crops = [''wheat'', ''corn''],
            beets_quota = 6000,
            crop_yield = cy,
            weathers = weather_types,
            deterministic_model = None,
            extensive_form_model = None \<rparr>)"

text \<open>\<open>Farmer.__init__\<close> of mpi-sppy/farmer-3-scenarios.py: \<open>predicted_yield\<close> is a
  module-level global; the state is its value, \<open>None\<close> while the name is not defined.\<close>

definition Farmer_3 :: "string \<Rightarrow> real option \<Rightarrow> (py_error + scenario) \<times> real option" where
  "Farmer_3 weather_type g =
     (let g' = predicted_yield_step g weather_type in
      (case g' of
         None \<Rightarrow> Inl NameError
       | Some p \<Rightarrow> Inr
          \<lparr> total_acres = 500,
            planting_cost = [(''wheat'', 150), (''corn'', 230), (''beets'', 260)],
            planting_crops = [''wheat'', ''corn'', ''beets''],
            selling_price = [(''wheat'', 170), (''corn'', 150),
                             (''beets_favorable'', 36), (''beets_unfavorable'', 10)],
            selling_crops = [''wheat'', ''corn'', ''beets_favorable'', ''beets_unfavorable''],
            min_requirement = [(''wheat'', 200), (''corn'', 240)],
            purchase_price = [(''wheat'', 238), (''corn'', 210)],
            purchasing_crops = [''wheat'', ''corn''],
            required_crops = [''wheat'', ''corn''],
            beets_quota = 6000,
            crop_yield = Single (yields_at p) \<rparr>,
       g'))"

text \<open>\<open>Farmer.__init__\<close> of mpi-sppy/farmer-n-scenarios-PH.py: no check, no raise.\<close>

definition Farmer_PH :: "real \<Rightarrow> real \<Rightarrow> scenario_PH" where
  "Farmer_PH predicted_yield prob =
     \<lparr> total_acres = 500,
       planting_cost = [(''wheat'', 150), (''corn'', 230), (''beets'', 260)],
       planting_crops = [''wheat'', ''corn'', ''beets''],
       selling_price = [(''wheat'', 170), (''corn'', 150),
                        (''beets_favorable'', 36), (''beets_unfavorable'', 10)],
       selling_crops = [''wheat'', ''corn'', ''beets_favorable'', ''beets_unfavorable''],
       min_requirement = [(''wheat'', 200), (''corn'', 240)],
       purchase_price = [(''wheat'', 238), (''corn'', 210)],
       purchasing_crops = [''wheat'', ''corn''],
       required_crops = [''wheat'', ''corn''],
       beets_quota = 6000,
       crop_yield = Single (yields_at predicted_yield),
       probability = prob \<rparr>"

section \<open>Model builders\<close>

text \<open>
  What \<open>crop_yield[k]\<close> returns: a float for a flat dictionary, a dictionary for a
  nested one. Using a dictionary as a number, or subscripting a float, raises
  \<open>TypeError\<close>.
\<close>

datatype pyval = Float real | Dict "(string \<times> real) list"

definition crop_yield_getitem :: "yields \<Rightarrow> string \<Rightarrow> py_error + pyval" where
  "crop_yield_getitem cy k =
     (case cy of
        Single d \<Rightarrow> then_do (getitem d k) (\<lambda>v. Inr (Float v))
      | Multi d \<Rightarrow> then_do (getitem d k) (\<lambda>v. Inr (Dict v)))"

definition subscript :: "pyval \<Rightarrow> string \<Rightarrow> py_error + pyval" where
  "subscript v k =
     (case v of
        Float _ \<Rightarrow> Inl TypeError
      | Dict d \<Rightarrow> then_do (getitem d k) (\<lambda>c. Inr (Float c)))"

definition as_number :: "pyval \<Rightarrow> py_error + expr" where
  "as_number v = (case v of Float c \<Rightarrow> Inr (ENum c) | Dict _ \<Rightarrow> Inl TypeError)"

text \<open>\<open>model.g[i] * price[crop]\<close>, one summand of an objective term.\<close>

definition priced ::
  "vgroup \<Rightarrow> index list \<Rightarrow> (string \<times> real) list \<Rightarrow> index \<Rightarrow> string \<Rightarrow> py_error + expr" where
  "priced g idxs price i crop =
     then_do (getvar g idxs i) (\<lambda>v.
     then_do (getitem price crop) (\<lambda>p. Inr (EMul v (ENum p))))"

text \<open>The rule \<open>total_acreage_allowed\<close>, the same text in every builder:
  \<open>sum(model.x[c] for c in planting_crops) <= total_acres\<close>.\<close>

definition total_acreage_allowed_rule ::
  "'a scenario_scheme \<Rightarrow> index list \<Rightarrow> py_error + constr" where
  "total_acreage_allowed_rule scenario x =
     then_do (for_each (\<lambda>planted_crop. getvar Var_x x [planted_crop]) (planting_crops scenario))
       (\<lambda>xs. Inr (Constr [] (ELe (ESum xs) (ENum (total_acres scenario)))))"

text \<open>The deterministic rule \<open>minimum_requirement\<close>:
  \<open>model.x[c]*crop_yield[c] + model.y[c] - model.w[c] >= min_requirement[c]\<close>.\<close>

definition minimum_requirement_rule ::
  "'a scenario_scheme \<Rightarrow> index list \<Rightarrow> index list \<Rightarrow> index list \<Rightarrow> string
     \<Rightarrow> py_error + constr" where
  "minimum_requirement_rule scenario x w y required_crop =
     then_do (getvar Var_x x [required_crop]) (\<lambda>vx.
     then_do (crop_yield_getitem (crop_yield scenario) required_crop) (\<lambda>cy.
     then_do (as_number cy) (\<lambda>yld.
     then_do (getvar Var_y y [required_crop]) (\<lambda>vy.
     then_do (getvar Var_w w [required_crop]) (\<lambda>vw.
     then_do (getitem (min_requirement scenario) required_crop) (\<lambda>req.
       Inr (Constr [required_crop]
              (EGe (ESub (EAdd (EMul vx yld) vy) vw) (ENum req)))))))))"

text \<open>The deterministic rule \<open>sugar_beet_mass_balance\<close>:
  \<open>model.w["beets_favorable"] + model.w["beets_unfavorable"]
     <= crop_yield["beets"]*model.x["beets"]\<close>.\<close>

definition sugar_beet_mass_balance_rule ::
  "'a scenario_scheme \<Rightarrow> index list \<Rightarrow> index list \<Rightarrow> py_error + constr" where
  "sugar_beet_mass_balance_rule scenario x w =
     then_do (getvar Var_w w [''beets_favorable'']) (\<lambda>wf.
     then_do (getvar Var_w w [''beets_unfavorable'']) (\<lambda>wu.
     then_do (crop_yield_getitem (crop_yield scenario) ''beets'') (\<lambda>cy.
     then_do (getvar Var_x x [''beets'']) (\<lambda>vx.
     then_do (as_number cy) (\<lambda>yld.
       Inr (Constr [] (ELe (EAdd wf wu) (EMul yld vx))))))))"

text \<open>The deterministic rule \<open>sugar_beet_quota\<close>:
  \<open>model.w["beets_favorable"] <= beets_quota\<close>.\<close>

definition sugar_beet_quota_rule :: "'a scenario_scheme \<Rightarrow> index list \<Rightarrow> py_error + constr" where
  "sugar_beet_quota_rule scenario w =
     then_do (getvar Var_w w [''beets_favorable'']) (\<lambda>wf.
       Inr (Constr [] (ELe wf (ENum (beets_quota scenario)))))"

text \<open>\<open>build_deterministic_model(scenario)\<close> of mpi-sppy/farmer-3-scenarios.py and
  mpi-sppy/farmer-n-scenarios-PH.py: the three objective terms are kept on the model
  and the model is returned.\<close>

definition build_deterministic_model :: "'a scenario_scheme \<Rightarrow> py_error + model" where
  "build_deterministic_model scenario =
     (let x = map (\<lambda>c. [c]) (planting_crops scenario);
          w = map (\<lambda>c. [c]) (selling_crops scenario);
          y = map (\<lambda>c. [c]) (purchasing_crops scenario)
      in
      then_do (for_each (\<lambda>planted_crop. priced Var_x x (planting_cost scenario) [planted_crop] planted_crop)
                 (planting_crops scenario)) (\<lambda>pc.
      then_do (for_each (\<lambda>sold_crop. priced Var_w w (selling_price scenario) [sold_crop] sold_crop)
                 (selling_crops scenario)) (\<lambda>sc.
      then_do (for_each (\<lambda>purchased_crop. priced Var_y y (purchase_price scenario) [purchased_crop] purchased_crop)
                 (purchasing_crops scenario)) (\<lambda>uc.
      then_do (total_acreage_allowed_rule scenario x) (\<lambda>ta.
      then_do (for_each (minimum_requirement_rule scenario x w y) (required_crops scenario)) (\<lambda>mr.
      then_do (sugar_beet_mass_balance_rule scenario x w) (\<lambda>mb.
      then_do (sugar_beet_quota_rule scenario w) (\<lambda>q.
        Inr \<lparr> var_x = x, var_w = w, var_y = y,
              m_planting_cost = Some (ESum pc),
              m_selling_cost = Some (ESum sc),
              m_puchasing_cost = Some (ESum uc),
              obj = EAdd (ESub (ESum pc) (ESum sc)) (ESum uc),
              total_acreage_allowed = [ta],
              minimum_requirement = mr,
              sugar_beet_mass_balance = [mb],
              sugar_beet_quota = [q],
              mpisppy_node_list = [],
              mpisppy_probability = None \<rparr>))))))))"

text \<open>\<open>Farmer.build_deterministic_model(self)\<close> of examples/farmer-extensive-form.py:
  the objective is written in one expression and the model is stored on the instance.\<close>

definition Farmer_build_deterministic_model :: "farmer \<Rightarrow> py_error + farmer" where
  "Farmer_build_deterministic_model self =
     (let x = map (\<lambda>c. [c]) (planting_crops self);
          w = map (\<lambda>c. [c]) (selling_crops self);
          y = map (\<lambda>c. [c]) (purchasing_crops self)
      in
      then_do (for_each (\<lambda>planted_crop. priced Var_x x (planting_cost self) [planted_crop] planted_crop)
                 (planting_crops self)) (\<lambda>pc.
      then_do (for_each (\<lambda>sold_crop. priced Var_w w (selling_price self) [sold_crop] sold_crop)
                 (selling_crops self)) (\<lambda>sc.
      then_do (for_each (\<lambda>purchased_crop. priced Var_y y (purchase_price self) [purchased_crop] purchased_crop)
                 (purchasing_crops self)) (\<lambda>uc.
      then_do (total_acreage_allowed_rule self x) (\<lambda>ta.
      then_do (for_each (minimum_requirement_rule self x w y) (required_crops self)) (\<lambda>mr.
      then_do (sugar_beet_mass_balance_rule self x w) (\<lambda>mb.
      then_do (sugar_beet_quota_rule self w) (\<lambda>q.
        Inr (self \<lparr> deterministic_model := Some
              \<lparr> var_x = x, var_w = w, var_y = y,
                m_planting_cost = None,
                m_selling_cost = None,
                m_puchasing_cost = None,
                obj = EAdd (ESub (ESum pc) (ESum sc)) (ESum uc),
                total_acreage_allowed = [ta],
                minimum_requirement = mr,
                sugar_beet_mass_balance = [mb],
                sugar_beet_quota = [q],
              mpisppy_node_list = [],
              mpisppy_probability = None \<rparr> \<rparr>)))))))))"

text \<open>The extensive-form rules carry the weather in their index and read the yield of
  that weather: \<open>crop_yield[weather][crop]\<close>.\<close>

definition ef_minimum_requirement_rule ::
  "farmer \<Rightarrow> index list \<Rightarrow> index list \<Rightarrow> index list \<Rightarrow> string \<times> string
     \<Rightarrow> py_error + constr" where
  "ef_minimum_requirement_rule self x w y = (\<lambda>(weather, required_crop).
     then_do (getvar Var_x x [required_crop]) (\<lambda>vx.
     then_do (crop_yield_getitem (crop_yield self) weather) (\<lambda>cyw.
     then_do (subscript cyw required_crop) (\<lambda>cy.
     then_do (as_number cy) (\<lambda>yld.
     then_do (getvar Var_y y [weather, required_crop]) (\<lambda>vy.
     then_do (getvar Var_w w [weather, required_crop]) (\<lambda>vw.
     then_do (getitem (min_requirement self) required_crop) (\<lambda>req.
       Inr (Constr [weather, required_crop]
              (EGe (ESub (EAdd (EMul vx yld) vy) vw) (ENum req)))))))))))"

definition ef_sugar_beet_mass_balance_rule ::
  "farmer \<Rightarrow> index list \<Rightarrow> index list \<Rightarrow> string \<Rightarrow> py_error + constr" where
  "ef_sugar_beet_mass_balance_rule self x w weather =
     then_do (getvar Var_w w [weather, ''beets_favorable'']) (\<lambda>wf.
     then_do (getvar Var_w w [weather, ''beets_unfavorable'']) (\<lambda>wu.
     then_do (crop_yield_getitem (crop_yield self) weather) (\<lambda>cyw.
     then_do (subscript cyw ''beets'') (\<lambda>cy.
     then_do (getvar Var_x x [''beets'']) (\<lambda>vx.
     then_do (as_number cy) (\<lambda>yld.
       Inr (Constr [weather] (ELe (EAdd wf wu) (EMul yld vx)))))))))"

definition ef_sugar_beet_quota_rule ::
  "farmer \<Rightarrow> index list \<Rightarrow> string \<Rightarrow> py_error + constr" where
  "ef_sugar_beet_quota_rule self w weather =
     then_do (getvar Var_w w [weather, ''beets_favorable'']) (\<lambda>wf.
       Inr (Constr [weather] (ELe wf (ENum (beets_quota self)))))"

text \<open>
  \<open>Farmer.build_extensive_form_model(self)\<close> of examples/farmer-extensive-form.py.
  \<open>pyo.Var(A, B)\<close> and \<open>Constraint(A, B)\<close> range over the pairs of \<open>A\<close> and \<open>B\<close>;
  the comprehension \<open>for sold_crop in selling_crops for weather in weathers\<close> ranges
  over the pairs of crops and weathers, crop first. The weights \<open>-1/3\<close> and \<open>1/3\<close> are
  the literals of the source. The index lists are kept as the source passes them. For an
  instance built from a single string,
  \<open>self.weathers\<close> is that string and what Pyomo makes of it as an index set is not
  this repository's code.
\<close>

definition build_extensive_form_model :: "farmer \<Rightarrow> py_error + farmer" where
  "build_extensive_form_model self =
     (case weathers self of
        Str _ \<Rightarrow> Inl Unmodelled
      | Lst ws \<Rightarrow>
     (let x = map (\<lambda>c. [c]) (planting_crops self);
          w = map (\<lambda>(weather, c). [weather, c]) (List.product ws (selling_crops self));
          y = map (\<lambda>(weather, c). [weather, c]) (List.product ws (purchasing_crops self))
      in
      then_do (for_each (\<lambda>planted_crop. priced Var_x x (planting_cost self) [planted_crop] planted_crop)
                 (planting_crops self)) (\<lambda>pc.
      then_do (for_each (\<lambda>(sold_crop, weather). priced Var_w w (selling_price self) [weather, sold_crop] sold_crop)
                 (List.product (selling_crops self) ws)) (\<lambda>sc.
      then_do (for_each (\<lambda>(purchased_crop, weather). priced Var_y y (purchase_price self) [weather, purchased_crop] purchased_crop)
                 (List.product (purchasing_crops self) ws)) (\<lambda>uc.
      then_do (total_acreage_allowed_rule self x) (\<lambda>ta.
      then_do (for_each (ef_minimum_requirement_rule self x w y)
                 (List.product ws (required_crops self))) (\<lambda>mr.
      then_do (for_each (ef_sugar_beet_mass_balance_rule self x w) ws) (\<lambda>mb.
      then_do (for_each (ef_sugar_beet_quota_rule self w) ws) (\<lambda>q.
        Inr (self \<lparr> extensive_form_model := Some
              \<lparr> var_x = x, var_w = w, var_y = y,
                m_planting_cost = None,
                m_selling_cost = None,
                m_puchasing_cost = None,
                obj = EAdd (EAdd (ESum pc) (EMul (ENum (-1/3)) (ESum sc)))
                           (EMul (ENum (1/3)) (ESum uc)),
                total_acreage_allowed = [ta],
                minimum_requirement = mr,
                sugar_beet_mass_balance = mb,
                sugar_beet_quota = q,
                mpisppy_node_list = [],
                mpisppy_probability = None \<rparr> \<rparr>))))))))))"

section \<open>Scenario creator\<close>

text \<open>
  \<open>scenario_creator\<close> of mpi-sppy/farmer-3-scenarios.py, over the global
  \<open>predicted_yield\<close>: it builds the Farmer and its model, attaches the root node
  (first-stage cost \<open>model.planting_cost\<close>, first-stage variables \<open>[model.x]\<close>) and
  sets the probability \<open>1.0 / 3\<close>.
\<close>

definition scenario_creator ::
  "string \<Rightarrow> real option \<Rightarrow> (py_error + model) \<times> real option" where
  "scenario_creator scenario g =
     (case Farmer_3 scenario g of
        (Inl e, g') \<Rightarrow> (Inl e, g')
      | (Inr farmer_scenario, g') \<Rightarrow>
          (then_do (build_deterministic_model farmer_scenario) (\<lambda>model.
             (case m_planting_cost model of
                None \<Rightarrow> Inl AttributeError
              | Some cost \<Rightarrow>
                  Inr (model \<lparr> mpisppy_node_list := [(cost, [Var_x])],
                              mpisppy_probability := Some (1 / 3) \<rparr>))),
           g'))"

section \<open>The specification's formulas\<close>

text \<open>
  The deterministic model as the specification words it, for a scenario with realized
  yields \<open>yw\<close>, \<open>yc\<close>, \<open>yb\<close> of wheat, corn and beets and the coefficients of the
  worked example: the objective is plantingCost minus sellingRevenue plus
  purchasingCost, each a sum of variables times unit coefficients.
\<close>

definition spec_planting_cost :: "assignment \<Rightarrow> real" where
  "spec_planting_cost a =
     a Var_x [''wheat''] * 150 + a Var_x [''corn''] * 230 + a Var_x [''beets''] * 260"

definition spec_selling_revenue :: "assignment \<Rightarrow> index \<Rightarrow> real" where
  "spec_selling_revenue a s =
     a Var_w (s @ [''wheat'']) * 170 + a Var_w (s @ [''corn'']) * 150 +
     a Var_w (s @ [''beets_favorable'']) * 36 + a Var_w (s @ [''beets_unfavorable'']) * 10"

definition spec_purchasing_cost :: "assignment \<Rightarrow> index \<Rightarrow> real" where
  "spec_purchasing_cost a s = a Var_y (s @ [''wheat'']) * 238 + a Var_y (s @ [''corn'']) * 210"

definition spec_scenario_objective :: "assignment \<Rightarrow> index \<Rightarrow> real" where
  "spec_scenario_objective a s =
     spec_planting_cost a - spec_selling_revenue a s + spec_purchasing_cost a s"

text \<open>The four constraint families of the specification, second-stage variables
  indexed by \<open>s\<close> (empty for a deterministic model).\<close>

definition spec_total_land :: "assignment \<Rightarrow> bool" where
  "spec_total_land a = (a Var_x [''wheat''] + a Var_x [''corn''] + a Var_x [''beets''] \<le> 500)"

definition spec_min_requirement :: "real \<Rightarrow> real \<Rightarrow> assignment \<Rightarrow> index \<Rightarrow> bool" where
  "spec_min_requirement yw yc a s =
     (a Var_x [''wheat''] * yw + a Var_y (s @ [''wheat'']) - a Var_w (s @ [''wheat'']) \<ge> 200 \<and>
      a Var_x [''corn''] * yc + a Var_y (s @ [''corn'']) - a Var_w (s @ [''corn'']) \<ge> 240)"

definition spec_mass_balance :: "real \<Rightarrow> assignment \<Rightarrow> index \<Rightarrow> bool" where
  "spec_mass_balance yb a s =
     (a Var_w (s @ [''beets_favorable'']) + a Var_w (s @ [''beets_unfavorable''])
        \<le> yb * a Var_x [''beets''])"

definition spec_quota :: "assignment \<Rightarrow> index \<Rightarrow> bool" where
  "spec_quota a s = (a Var_w (s @ [''beets_favorable'']) \<le> 6000)"

text \<open>What the specification asks of a deterministic model: the objective, and each
  of the four families with the indices it is instantiated at.\<close>

definition spec_deterministic_model :: "real \<Rightarrow> real \<Rightarrow> real \<Rightarrow> model \<Rightarrow> assignment \<Rightarrow> bool" where
  "spec_deterministic_model yw yc yb m a =
     (pyo_value a (obj m) = spec_scenario_objective a [] \<and>
      map c_index (total_acreage_allowed m) = [[]] \<and>
      map c_index (minimum_requirement m) = [[''wheat''], [''corn'']] \<and>
      map c_index (sugar_beet_mass_balance m) = [[]] \<and>
      map c_index (sugar_beet_quota m) = [[]] \<and>
      list_all (\<lambda>c. holds a (c_rule c)) (total_acreage_allowed m) = spec_total_land a \<and>
      list_all (\<lambda>c. holds a (c_rule c)) (minimum_requirement m) = spec_min_requirement yw yc a [] \<and>
      list_all (\<lambda>c. holds a (c_rule c)) (sugar_beet_mass_balance m) = spec_mass_balance yb a [] \<and>
      list_all (\<lambda>c. holds a (c_rule c)) (sugar_beet_quota m) = spec_quota a [])"

text \<open>The specification's aggregate objective: the sum over the scenarios of
  probability times (plantingCost + (\<open>-\<close>sellingRevenue) + purchasingCost).\<close>

definition spec_extensive_objective :: "(string \<Rightarrow> real) \<Rightarrow> string list \<Rightarrow> assignment \<Rightarrow> real" where
  "spec_extensive_objective prob ws a =
     (\<Sum>s\<leftarrow>ws. prob s *
        (spec_planting_cost a + (- spec_selling_revenue a [s]) + spec_purchasing_cost a [s]))"

section \<open>Running the scripts\<close>

text \<open>The main block of examples/farmer-extensive-form.py up to the build:
  \<open>farmer=Farmer(ws); farmer.build_extensive_form_model()\<close>, and the same for the
  deterministic model of one weather.\<close>

definition main_extensive :: "string list \<Rightarrow> py_error + farmer" where
  "main_extensive ws = then_do (Farmer_init (Lst ws)) build_extensive_form_model"

definition main_deterministic :: "string \<Rightarrow> py_error + farmer" where
  "main_deterministic weather = then_do (Farmer_init (Str weather)) Farmer_build_deterministic_model"

text \<open>Reading the model back, as \<open>show_results\<close> does: \<open>self.extensive_form_model\<close>
  and \<open>self.deterministic_model\<close>; an attribute never assigned raises
  \<open>AttributeError\<close>.\<close>

definition extensive_model :: "string list \<Rightarrow> py_error + model" where
  "extensive_model ws =
     then_do (main_extensive ws) (\<lambda>farmer.
       case extensive_form_model farmer of None \<Rightarrow> Inl AttributeError | Some m \<Rightarrow> Inr m)"

definition deterministic_model_of :: "string \<Rightarrow> py_error + model" where
  "deterministic_model_of weather =
     then_do (main_deterministic weather) (\<lambda>farmer.
       case deterministic_model farmer of None \<Rightarrow> Inl AttributeError | Some m \<Rightarrow> Inr m)"

text \<open>The constraints declared over the weathers, and the ones declared once.\<close>

definition scenario_indexed_constraints :: "model \<Rightarrow> constr list" where
  "scenario_indexed_constraints m =
     minimum_requirement m @ sugar_beet_mass_balance m @ sugar_beet_quota m"

text \<open>
  An assignment of the extensive-form variables, read as an assignment of scenario
  \<open>s\<close>'s deterministic variables: \<open>x[c]\<close> is the shared \<open>x[c]\<close>, and \<open>w[c]\<close>,
  \<open>y[c]\<close> are \<open>w[s,c]\<close>, \<open>y[s,c]\<close>.
\<close>

definition scenario_part :: "string \<Rightarrow> assignment \<Rightarrow> assignment" where
  "scenario_part s b g i = (if g = Var_x then b g i else b g (s # i))"

text \<open>A test point: one ton of wheat sold in scenario \<open>s\<close>, every other variable zero.\<close>

definition one_ton_wheat_sold :: "string \<Rightarrow> assignment" where
  "one_ton_wheat_sold s g i = (if g = Var_w \<and> i = [s, ''wheat''] then 1 else 0)"

text \<open>Every scenario certain, as in a scenario set of size one.\<close>

definition certain :: "string \<Rightarrow> real" where
  "certain s = 1"

section \<open>Scenario source\<close>

text \<open>
  C9. The weather labels map to fixed multipliers, good to 1.2, fair to 1.0 and bad to
  0.8, applied to the fair-weather yields wheat 2.5, corn 3 and beets 20: the good
  scenario's wheat yield is 3.0. The same holds for each entry of the dictionary built
  from the list of the three labels.
\<close>

theorem scenario_source_multipliers:
  "predicted_yield_step None ''good'' = Some 1.2 \<and>
   predicted_yield_step None ''fair'' = Some 1.0 \<and>
   predicted_yield_step None ''bad'' = Some 0.8 \<and>
   yields_at 1 = [(''wheat'', 2.5), (''corn'', 3), (''beets'', 20)] \<and>
   map_sum id crop_yield (Farmer_init (Str ''good'')) =
     Inr (Single [(''wheat'', 3.0), (''corn'', 3.6), (''beets'', 24)]) \<and>
   map_sum id crop_yield (Farmer_init (Str ''fair'')) =
     Inr (Single [(''wheat'', 2.5), (''corn'', 3), (''beets'', 20)]) \<and>
   map_sum id crop_yield (Farmer_init (Str ''bad'')) =
     Inr (Single [(''wheat'', 2), (''corn'', 2.4), (''beets'', 16)]) \<and>
   map_sum id crop_yield (Farmer_init (Lst [''good'', ''fair'', ''bad''])) =
     Inr (Multi [(''good'', [(''wheat'', 3.0), (''corn'', 3.6), (''beets'', 24)]),
                 (''fair'', [(''wheat'', 2.5), (''corn'', 3), (''beets'', 20)]),
                 (''bad'', [(''wheat'', 2), (''corn'', 2.4), (''beets'', 16)])])"
  by (simp add: Farmer_init_def predicted_yield_step_def yields_at_def then_do_def)

section \<open>Evaluation and helper lemmas\<close>

lemmas rule_defs = then_do_def getitem_def getvar_def priced_def crop_yield_getitem_def subscript_def
  as_number_def total_acreage_allowed_rule_def minimum_requirement_rule_def
  sugar_beet_mass_balance_rule_def sugar_beet_quota_rule_def

lemma for_each_map:
  "(\<And>a. a \<in> set xs \<Longrightarrow> g a = Inr (h a)) \<Longrightarrow> for_each g xs = Inr (map h xs)"
  by (induction xs) (simp_all add: then_do_def)

lemma for_each_succeeds:
  "(\<And>a. a \<in> set xs \<Longrightarrow> \<exists>b. g a = Inr b) \<Longrightarrow> \<exists>bs. for_each g xs = Inr bs \<and> length bs = length xs"
proof (induction xs)
  case Nil
  then show ?case by simp
next
  case (Cons a xs)
  then obtain b where b: "g a = Inr b" by auto
  from Cons obtain bs where bs: "for_each g xs = Inr bs" "length bs = length xs" by auto
  show ?case by (simp add: b bs then_do_def)
qed

lemma crop_yield_scenarios_keys:
  "crop_yield_scenarios ws py acc = Inr d \<Longrightarrow>
   k \<in> set ws \<or> (\<exists>p. map_of acc k = Some (yields_at p)) \<Longrightarrow>
   \<exists>p. map_of d k = Some (yields_at p)"
proof (induction ws arbitrary: py acc)
  case Nil
  then show ?case by simp
next
  case (Cons w ws)
  from Cons.prems(1) obtain p where p: "predicted_yield_step py w = Some p"
    and rest: "crop_yield_scenarios ws (Some p) (AList.update w (yields_at p) acc) = Inr d"
    by (auto split: option.splits)
  have "k \<in> set ws \<or> (\<exists>q. map_of (AList.update w (yields_at p) acc) k = Some (yields_at q))"
    using Cons.prems(2) by (auto simp: update_conv')
  from Cons.IH[OF rest this] show ?case .
qed

lemmas spec_defs = spec_deterministic_model_def spec_scenario_objective_def spec_planting_cost_def
  spec_selling_revenue_def spec_purchasing_cost_def spec_total_land_def spec_min_requirement_def
  spec_mass_balance_def spec_quota_def

lemmas script_defs = main_extensive_def main_deterministic_def extensive_model_def
  deterministic_model_of_def Farmer_init_def build_extensive_form_model_def
  Farmer_build_deterministic_model_def ef_minimum_requirement_rule_def
  ef_sugar_beet_mass_balance_rule_def ef_sugar_beet_quota_rule_def
  predicted_yield_step_def yields_at_def

lemma Farmer_init_Lst:
  assumes "Farmer_init (Lst ws) = Inr f"
  shows "\<exists>d. crop_yield_scenarios ws None [] = Inr d \<and> f =
          \<lparr> total_acres = 500,
            planting_cost = [(''wheat'', 150), (''corn'', 230), (''beets'', 260)],
            planting_crops = [''wheat'', ''corn'', ''beets''],
            selling_price = [(''wheat'', 170), (''corn'', 150),
                             (''beets_favorable'', 36), (''beets_unfavorable'', 10)],
            selling_crops = [''wheat'', ''corn'', ''beets_favorable'', ''beets_unfavorable''],
            min_requirement = [(''wheat'', 200), (''corn'', 240)],
            purchase_price = [(''wheat'', 238), (''corn'', 210)],
            purchasing_crops = [''wheat'', ''corn''],
            required_crops = [''wheat'', ''corn''],
            beets_quota = 6000,
            crop_yield = Multi d,
            weathers = Lst ws,
            deterministic_model = None,
            extensive_form_model = None \<rparr>"
  using assms by (auto simp: Farmer_init_def then_do_def split: sum.splits)

lemma sum_list_scenarios4:
  fixes f1 f2 f3 f4 :: "'a \<Rightarrow> real"
  shows "(\<Sum>s\<leftarrow>ws. f1 s + f2 s + f3 s + f4 s) =
         (\<Sum>s\<leftarrow>ws. f1 s) + (\<Sum>s\<leftarrow>ws. f2 s) + (\<Sum>s\<leftarrow>ws. f3 s) + (\<Sum>s\<leftarrow>ws. f4 s)"
  by (induction ws) simp_all

lemma sum_list_scenarios2:
  fixes f1 f2 :: "'a \<Rightarrow> real"
  shows "(\<Sum>s\<leftarrow>ws. f1 s + f2 s) = (\<Sum>s\<leftarrow>ws. f1 s) + (\<Sum>s\<leftarrow>ws. f2 s)"
  by (induction ws) simp_all

lemma extensive_objective:
  assumes init: "Farmer_init (Lst ws) = Inr f"
  shows "\<exists>m. build_extensive_form_model f = Inr (f\<lparr>extensive_form_model := Some m\<rparr>) \<and>
     (\<forall>a. pyo_value a (obj m) =
        spec_planting_cost a + (- 1 / 3) * (\<Sum>s\<leftarrow>ws. spec_selling_revenue a [s])
          + (1 / 3) * (\<Sum>s\<leftarrow>ws. spec_purchasing_cost a [s]))"
proof -
  from Farmer_init_Lst[OF init] obtain d where
    d: "crop_yield_scenarios ws None [] = Inr d" and
    f: "f = \<lparr> total_acres = 500,
            planting_cost = [(''wheat'', 150), (''corn'', 230), (''beets'', 260)],
            planting_crops = [''wheat'', ''corn'', ''beets''],
            selling_price = [(''wheat'', 170), (''corn'', 150),
                             (''beets_favorable'', 36), (''beets_unfavorable'', 10)],
            selling_crops = [''wheat'', ''corn'', ''beets_favorable'', ''beets_unfavorable''],
            min_requirement = [(''wheat'', 200), (''corn'', 240)],
            purchase_price = [(''wheat'', 238), (''corn'', 210)],
            purchasing_crops = [''wheat'', ''corn''],
            required_crops = [''wheat'', ''corn''],
            beets_quota = 6000,
            crop_yield = Multi d,
            weathers = Lst ws,
            deterministic_model = None,
            extensive_form_model = None \<rparr>" by blast
  have yl: "\<exists>p. map_of d s = Some (yields_at p)" if "s \<in> set ws" for s
    using crop_yield_scenarios_keys[OF d] that by blast
  define x where "x = map (\<lambda>c. [c]) (planting_crops f)"
  define w where "w = map (\<lambda>(weather, c). [weather, c]) (List.product ws (selling_crops f))"
  define y where "y = map (\<lambda>(weather, c). [weather, c]) (List.product ws (purchasing_crops f))"
  define hS where "hS = (\<lambda>(c, s). EMul (EVar Var_w [s, c])
     (ENum (if c = ''wheat'' then 170 else if c = ''corn'' then 150
            else if c = ''beets_favorable'' then 36 else 10)))"
  define hP where "hP = (\<lambda>(c, s). EMul (EVar Var_y [s, c])
     (ENum (if c = ''wheat'' then 238 else 210 :: real)))"
  have wf: "weathers f = Lst ws" by (simp add: f)
  have pc: "for_each (\<lambda>planted_crop. priced Var_x x (planting_cost f) [planted_crop] planted_crop)
              (planting_crops f) =
            Inr [EMul (EVar Var_x [''wheat'']) (ENum 150), EMul (EVar Var_x [''corn'']) (ENum 230),
                 EMul (EVar Var_x [''beets'']) (ENum 260)]"
    by (simp add: f x_def rule_defs)
  have sc: "for_each (\<lambda>(sold_crop, weather). priced Var_w w (selling_price f) [weather, sold_crop] sold_crop)
              (List.product (selling_crops f) ws) = Inr (map hS (List.product (selling_crops f) ws))"
    by (rule for_each_map) (auto simp: f w_def hS_def rule_defs)
  have uc: "for_each (\<lambda>(purchased_crop, weather). priced Var_y y (purchase_price f) [weather, purchased_crop] purchased_crop)
              (List.product (purchasing_crops f) ws) = Inr (map hP (List.product (purchasing_crops f) ws))"
    by (rule for_each_map) (auto simp: f y_def hP_def rule_defs)
  obtain ta where ta: "total_acreage_allowed_rule f x = Inr ta"
    by (simp add: f x_def rule_defs)
  have "\<exists>mr. for_each (ef_minimum_requirement_rule f x w y) (List.product ws (required_crops f)) = Inr mr
            \<and> length mr = length (List.product ws (required_crops f))"
  proof (rule for_each_succeeds)
    fix a assume "a \<in> set (List.product ws (required_crops f))"
    then obtain s c where a: "a = (s, c)" and s: "s \<in> set ws" and c: "c = ''wheat'' \<or> c = ''corn''"
      by (auto simp: f)
    from yl[OF s] obtain p where p: "map_of d s = Some (yields_at p)" by blast
    from c s show "\<exists>b. ef_minimum_requirement_rule f x w y a = Inr b"
      by (auto simp: a p f x_def w_def y_def ef_minimum_requirement_rule_def yields_at_def rule_defs)
  qed
  then obtain mr where mr: "for_each (ef_minimum_requirement_rule f x w y) (List.product ws (required_crops f)) = Inr mr"
    by blast
  have "\<exists>mb. for_each (ef_sugar_beet_mass_balance_rule f x w) ws = Inr mb \<and> length mb = length ws"
  proof (rule for_each_succeeds)
    fix s assume s: "s \<in> set ws"
    from yl[OF s] obtain p where p: "map_of d s = Some (yields_at p)" by blast
    from s show "\<exists>b. ef_sugar_beet_mass_balance_rule f x w s = Inr b"
      by (auto simp: p f x_def w_def ef_sugar_beet_mass_balance_rule_def yields_at_def rule_defs)
  qed
  then obtain mb where mb: "for_each (ef_sugar_beet_mass_balance_rule f x w) ws = Inr mb" by blast
  have "\<exists>q. for_each (ef_sugar_beet_quota_rule f w) ws = Inr q \<and> length q = length ws"
  proof (rule for_each_succeeds)
    fix s assume s: "s \<in> set ws"
    then show "\<exists>b. ef_sugar_beet_quota_rule f w s = Inr b"
      by (auto simp: f w_def ef_sugar_beet_quota_rule_def rule_defs)
  qed
  then obtain q where q: "for_each (ef_sugar_beet_quota_rule f w) ws = Inr q" by blast
  define m where "m =
      \<lparr> var_x = x, var_w = w, var_y = y,
        m_planting_cost = None, m_selling_cost = None, m_puchasing_cost = None,
        obj = EAdd (EAdd (ESum [EMul (EVar Var_x [''wheat'']) (ENum 150), EMul (EVar Var_x [''corn'']) (ENum 230),
                 EMul (EVar Var_x [''beets'']) (ENum 260)])
                (EMul (ENum (-1/3)) (ESum (map hS (List.product (selling_crops f) ws)))))
                (EMul (ENum (1/3)) (ESum (map hP (List.product (purchasing_crops f) ws)))),
        total_acreage_allowed = [ta], minimum_requirement = mr,
        sugar_beet_mass_balance = mb, sugar_beet_quota = q,
        mpisppy_node_list = [], mpisppy_probability = None \<rparr>"
  have build: "build_extensive_form_model f = Inr (f\<lparr>extensive_form_model := Some m\<rparr>)"
    unfolding build_extensive_form_model_def Let_def wf weather_types.case
      x_def[symmetric] w_def[symmetric] y_def[symmetric] pc sc uc ta mr mb q m_def
    by (simp add: then_do_def)
  have val: "pyo_value a (obj m) =
        spec_planting_cost a + (- 1 / 3) * (\<Sum>s\<leftarrow>ws. spec_selling_revenue a [s])
          + (1 / 3) * (\<Sum>s\<leftarrow>ws. spec_purchasing_cost a [s])" for a
    by (simp add: m_def f hS_def hP_def spec_planting_cost_def spec_selling_revenue_def
        spec_purchasing_cost_def sum_list_scenarios4 sum_list_scenarios2 comp_def)
  from build val show ?thesis by blast
qed

lemma crop_yield_scenarios_recognized:
  "set ws \<subseteq> {''good'', ''fair'', ''bad''} \<Longrightarrow> \<exists>d. crop_yield_scenarios ws py acc = Inr d"
proof (induction ws arbitrary: py acc)
  case Nil
  then show ?case by simp
next
  case (Cons w ws)
  then have "w = ''good'' \<or> w = ''fair'' \<or> w = ''bad''" by auto
  then have "predicted_yield_step py w =
      Some (if w = ''good'' then 1.2 else if w = ''fair'' then 1 else 0.8)"
    by (auto simp: predicted_yield_step_def)
  then obtain p where p: "predicted_yield_step py w = Some p" by blast
  from Cons show ?case by (simp add: p)
qed

lemma extensive_model_objective:
  assumes "set ws \<subseteq> {''good'', ''fair'', ''bad''}"
  shows "\<exists>m. extensive_model ws = Inr m \<and>
     (\<forall>a. pyo_value a (obj m) =
        spec_planting_cost a + (- 1 / 3) * (\<Sum>s\<leftarrow>ws. spec_selling_revenue a [s])
          + (1 / 3) * (\<Sum>s\<leftarrow>ws. spec_purchasing_cost a [s]))"
proof -
  from crop_yield_scenarios_recognized[OF assms] obtain d
    where "crop_yield_scenarios ws None [] = Inr d" by blast
  then obtain f where f: "Farmer_init (Lst ws) = Inr f"
    by (simp add: Farmer_init_def then_do_def)
  from extensive_objective[OF f] obtain m where
    "build_extensive_form_model f = Inr (f\<lparr>extensive_form_model := Some m\<rparr>)"
    and v: "\<forall>a. pyo_value a (obj m) =
        spec_planting_cost a + (- 1 / 3) * (\<Sum>s\<leftarrow>ws. spec_selling_revenue a [s])
          + (1 / 3) * (\<Sum>s\<leftarrow>ws. spec_purchasing_cost a [s])" by blast
  then have "extensive_model ws = Inr m"
    by (simp add: extensive_model_def main_extensive_def f then_do_def)
  with v show ?thesis by blast
qed

lemma det_build_attaches:
  assumes "Farmer_build_deterministic_model self = Inr self'"
  shows "\<exists>m. self' = self\<lparr>deterministic_model := Some m\<rparr>"
  using assms unfolding Farmer_build_deterministic_model_def Let_def then_do_def
  by (auto split: sum.splits)

lemma ef_build_attaches:
  assumes "build_extensive_form_model self = Inr self'"
  shows "\<exists>m. self' = self\<lparr>extensive_form_model := Some m\<rparr>"
  using assms unfolding build_extensive_form_model_def Let_def then_do_def
  by (auto split: sum.splits weather_types.splits)

lemma predicted_yield_step_idem:
  "predicted_yield_step (predicted_yield_step g w) w = predicted_yield_step g w"
  by (simp add: predicted_yield_step_def)

lemma rules_ignore_deterministic_model:
  "total_acreage_allowed_rule (self\<lparr>deterministic_model := dm\<rparr>) x = total_acreage_allowed_rule self x"
  "minimum_requirement_rule (self\<lparr>deterministic_model := dm\<rparr>) x w y = minimum_requirement_rule self x w y"
  "sugar_beet_mass_balance_rule (self\<lparr>deterministic_model := dm\<rparr>) x w = sugar_beet_mass_balance_rule self x w"
  "sugar_beet_quota_rule (self\<lparr>deterministic_model := dm\<rparr>) w = sugar_beet_quota_rule self w"
  by (simp_all add: total_acreage_allowed_rule_def minimum_requirement_rule_def
      sugar_beet_mass_balance_rule_def sugar_beet_quota_rule_def fun_eq_iff)

lemma det_build_ignores_model:
  "Farmer_build_deterministic_model (self\<lparr>deterministic_model := dm\<rparr>) =
   Farmer_build_deterministic_model self"
  by (simp add: Farmer_build_deterministic_model_def rules_ignore_deterministic_model)

lemma rebuild_on_instance:
  assumes "Farmer_build_deterministic_model self = Inr self1"
  shows "Farmer_build_deterministic_model self1 = Inr self1"
proof -
  from det_build_attaches[OF assms] obtain m where m: "self1 = self\<lparr>deterministic_model := Some m\<rparr>"
    by blast
  have "Farmer_build_deterministic_model self1 = Farmer_build_deterministic_model self"
    unfolding m by (rule det_build_ignores_model)
  with assms show ?thesis by simp
qed

lemma scenario_creator_twice:
  assumes "scenario_creator scenario g = (r, g1)"
  shows "scenario_creator scenario g1 = (r, g1)"
proof -
  from assms have g1: "g1 = predicted_yield_step g scenario"
    by (auto simp: scenario_creator_def Farmer_3_def Let_def split: option.splits)
  have "Farmer_3 scenario g1 = Farmer_3 scenario g"
    by (simp add: Farmer_3_def g1 predicted_yield_step_idem)
  with assms show ?thesis by (simp add: scenario_creator_def)
qed

lemma for_each_cong:
  "xs = ys \<Longrightarrow> (\<And>a. a \<in> set ys \<Longrightarrow> g a = h a) \<Longrightarrow> for_each g xs = for_each h ys"
  by (induction ys arbitrary: xs) (auto simp: then_do_def)

lemma build_reads_scenario_only:
  assumes "scenario.truncate sc = scenario.truncate sc'"
  shows "build_deterministic_model sc = build_deterministic_model sc'"
proof -
  from assms have "total_acres sc = total_acres sc'" "planting_cost sc = planting_cost sc'"
    "planting_crops sc = planting_crops sc'" "selling_price sc = selling_price sc'"
    "selling_crops sc = selling_crops sc'" "min_requirement sc = min_requirement sc'"
    "purchase_price sc = purchase_price sc'" "purchasing_crops sc = purchasing_crops sc'"
    "required_crops sc = required_crops sc'" "beets_quota sc = beets_quota sc'"
    "crop_yield sc = crop_yield sc'"
    by (simp_all add: scenario.truncate_def)
  then show ?thesis
    by (simp add: build_deterministic_model_def total_acreage_allowed_rule_def
        minimum_requirement_rule_def sugar_beet_mass_balance_rule_def sugar_beet_quota_rule_def
        fun_eq_iff cong: for_each_cong)
qed

lemma det_PH_spec:
  "\<exists>m. build_deterministic_model (Farmer_PH py pr) = Inr m \<and>
       spec_deterministic_model (2.5 * py) (3 * py) (20 * py) m a"
  by (simp add: build_deterministic_model_def Farmer_PH_def yields_at_def rule_defs spec_defs add.assoc)

lemma det_3_spec:
  "predicted_yield_step g w = Some py \<Longrightarrow>
   \<exists>sc m. Farmer_3 w g = (Inr sc, Some py) \<and> build_deterministic_model sc = Inr m \<and>
       spec_deterministic_model (2.5 * py) (3 * py) (20 * py) m a"
  by (simp add: Farmer_3_def build_deterministic_model_def yields_at_def rule_defs spec_defs add.assoc)

lemma det_ex_spec:
  "predicted_yield_step None w = Some py \<Longrightarrow>
   \<exists>m. deterministic_model_of w = Inr m \<and>
       spec_deterministic_model (2.5 * py) (3 * py) (20 * py) m a"
  by (simp add: deterministic_model_of_def main_deterministic_def Farmer_init_def
      Farmer_build_deterministic_model_def yields_at_def rule_defs spec_defs add.assoc)

lemma recognized_multiplier:
  "w \<in> {''good'', ''fair'', ''bad''} \<Longrightarrow>
   predicted_yield_step g w = Some (if w = ''good'' then 1.2 else if w = ''fair'' then 1 else 0.8)"
  by (auto simp: predicted_yield_step_def)

section \<open>The deterministic model builder\<close>

text \<open>
  C4. For every scenario the deterministic model minimises plantingCost minus
  sellingRevenue plus purchasingCost, each a sum of variables times unit coefficients,
  under exactly four constraint families: total land at most 500; for wheat and corn,
  land times the scenario's yield plus purchased minus sold at least the minimum
  requirement; favorable plus unfavorable beet sales at most the scenario's beet yield
  times beet land; favorable beet sales at most the quota. This holds for the mpi-sppy
  builder on a scenario of any yield multiplier \<open>py\<close> and on the scenario of a weather
  label, and for the method of examples/farmer-extensive-form.py on a weather label.
\<close>

theorem deterministic_model_meets_spec:
  "(\<exists>m. build_deterministic_model (Farmer_PH py pr) = Inr m \<and>
        spec_deterministic_model (2.5 * py) (3 * py) (20 * py) m a) \<and>
   (predicted_yield_step g w = Some q \<longrightarrow>
      (\<exists>sc m. Farmer_3 w g = (Inr sc, Some q) \<and> build_deterministic_model sc = Inr m \<and>
        spec_deterministic_model (2.5 * q) (3 * q) (20 * q) m a)) \<and>
   (predicted_yield_step None w' = Some q' \<longrightarrow>
      (\<exists>m. deterministic_model_of w' = Inr m \<and>
        spec_deterministic_model (2.5 * q') (3 * q') (20 * q') m a))"
  using det_PH_spec[of py pr a] det_3_spec[of g w q a] det_ex_spec[of w' q' a] by blast

theorem deterministic_model_meets_spec_witness:
  "predicted_yield_step None ''good'' = Some 1.2 \<and>
   predicted_yield_step None ''bad'' = Some 0.8 \<and>
   (\<exists>m. build_deterministic_model (Farmer_PH 1 (1 / 3)) = Inr m \<and>
        spec_deterministic_model 2.5 3 20 m (\<lambda>g i. 1)) \<and>
   (\<exists>sc m. Farmer_3 ''good'' None = (Inr sc, Some 1.2) \<and> build_deterministic_model sc = Inr m \<and>
        spec_deterministic_model 3 3.6 24 m (\<lambda>g i. 1)) \<and>
   (\<exists>m. deterministic_model_of ''bad'' = Inr m \<and>
        spec_deterministic_model 2 2.4 16 m (\<lambda>g i. 1))"
proof -
  have g: "predicted_yield_step None ''good'' = Some 1.2"
    and b: "predicted_yield_step None ''bad'' = Some 0.8"
    by (simp_all add: predicted_yield_step_def)
  from deterministic_model_meets_spec
         [of 1 "1 / 3" "\<lambda>g i. 1" None "''good''" "1.2" "''bad''" "0.8"] g b
  show ?thesis by simp
qed

text \<open>
  C8. Building a deterministic model twice from the same scenario gives the same
  model. On an instance of examples/farmer-extensive-form.py, which already carries the
  first model, the second build returns the same instance with the same model. In
  mpi-sppy/farmer-3-scenarios.py, creating the scenario of a label again from the global
  state the first creation left gives the same model and the same state. The mpi-sppy
  builder reads only the scenario's attributes: two objects that agree on them give the
  same variable groups, index domains, objective and constraints.
\<close>

theorem rebuild_is_identical:
  "(Farmer_build_deterministic_model self = Inr self1 \<longrightarrow>
      Farmer_build_deterministic_model self1 = Inr self1) \<and>
   (scenario_creator scenario g = (r, g1) \<longrightarrow> scenario_creator scenario g1 = (r, g1)) \<and>
   (scenario.truncate sc = scenario.truncate sc' \<longrightarrow>
      build_deterministic_model sc = build_deterministic_model sc')"
  using rebuild_on_instance[of self self1] scenario_creator_twice[of scenario g r g1]
    build_reads_scenario_only[of sc sc'] by blast

theorem rebuild_is_identical_witness:
  "(\<exists>self1. main_deterministic ''fair'' = Inr self1 \<and>
      Farmer_build_deterministic_model self1 = Inr self1) \<and>
   (\<exists>r. scenario_creator ''good'' None = (r, Some 1.2) \<and> \<not> isl r \<and>
      scenario_creator ''good'' (Some 1.2) = (r, Some 1.2)) \<and>
   scenario.truncate (Farmer_PH 1 (1 / 3)) = scenario.truncate (Farmer_PH 1 (1 / 2)) \<and>
   build_deterministic_model (Farmer_PH 1 (1 / 3)) = build_deterministic_model (Farmer_PH 1 (1 / 2))"
proof -
  obtain self where s: "Farmer_init (Str ''fair'') = Inr self"
    by (simp add: Farmer_init_def predicted_yield_step_def then_do_def)
  obtain self1 where s1: "Farmer_build_deterministic_model self = Inr self1"
    using s by (auto simp: Farmer_init_def Farmer_build_deterministic_model_def
        predicted_yield_step_def yields_at_def rule_defs)
  have m: "main_deterministic ''fair'' = Inr self1"
    by (simp add: main_deterministic_def s s1 then_do_def)
  obtain r where r: "scenario_creator ''good'' None = (r, Some 1.2)" and ok: "\<not> isl r"
    by (simp add: scenario_creator_def Farmer_3_def predicted_yield_step_def
        build_deterministic_model_def yields_at_def rule_defs)
  have t: "scenario.truncate (Farmer_PH 1 (1 / 3)) = scenario.truncate (Farmer_PH 1 (1 / 2))"
    by (simp add: Farmer_PH_def scenario.truncate_def)
  from rebuild_is_identical
         [of self self1 "''good''" None r "Some 1.2" "Farmer_PH 1 (1 / 3)" "Farmer_PH 1 (1 / 2)"]
       s1 m r ok t
  show ?thesis by blast
qed

section \<open>The extensive-form builder\<close>

text \<open>
  C1, as the code has it. The builder weighs the second-stage terms by the literal
  \<open>1/3\<close> and takes the planting cost once. For a list of three weather labels, each
  with probability \<open>1/3\<close>, the objective of the model it builds is the sum over the
  scenarios of probability times (plantingCost minus sellingRevenue plus purchasingCost),
  at every assignment of the variables.
\<close>

theorem extensive_objective_three_equiprobable:
  assumes "length ws = 3" and "set ws \<subseteq> {''good'', ''fair'', ''bad''}"
    and "\<forall>s\<in>set ws. prob s = 1 / 3"
  shows "\<exists>m. extensive_model ws = Inr m \<and>
           pyo_value a (obj m) = spec_extensive_objective prob ws a"
proof -
  from assms(1) obtain s1 s2 s3 where ws: "ws = [s1, s2, s3]"
    by (auto simp: length_Suc_conv numeral_3_eq_3)
  from extensive_model_objective[OF assms(2)] obtain m where
    m: "extensive_model ws = Inr m" and
    v: "pyo_value a (obj m) =
        spec_planting_cost a + (- 1 / 3) * (\<Sum>s\<leftarrow>ws. spec_selling_revenue a [s])
          + (1 / 3) * (\<Sum>s\<leftarrow>ws. spec_purchasing_cost a [s])" by blast
  from assms(3) have p: "prob s1 = 1 / 3" "prob s2 = 1 / 3" "prob s3 = 1 / 3"
    by (simp_all add: ws)
  have "spec_extensive_objective prob ws a =
        spec_planting_cost a + (- 1 / 3) * (\<Sum>s\<leftarrow>ws. spec_selling_revenue a [s])
          + (1 / 3) * (\<Sum>s\<leftarrow>ws. spec_purchasing_cost a [s])"
    by (simp add: spec_extensive_objective_def ws p add_divide_distrib diff_divide_distrib)
  with m v show ?thesis by simp
qed

theorem extensive_objective_three_equiprobable_witness:
  "length [''good'', ''fair'', ''bad''] = 3 \<and>
   set [''good'', ''fair'', ''bad''] \<subseteq> {''good'', ''fair'', ''bad''} \<and>
   (\<exists>m. extensive_model [''good'', ''fair'', ''bad''] = Inr m \<and>
     pyo_value (one_ton_wheat_sold ''bad'') (obj m) =
       spec_extensive_objective (\<lambda>s. 1 / 3) [''good'', ''fair'', ''bad''] (one_ton_wheat_sold ''bad'') \<and>
     pyo_value (one_ton_wheat_sold ''bad'') (obj m) = - 170 / 3)"
proof -
  from extensive_objective_three_equiprobable
         [of "[''good'', ''fair'', ''bad'']" "\<lambda>s. 1 / 3" "one_ton_wheat_sold ''bad''"]
  obtain m where m: "extensive_model [''good'', ''fair'', ''bad''] = Inr m"
    and v: "pyo_value (one_ton_wheat_sold ''bad'') (obj m) =
       spec_extensive_objective (\<lambda>s. 1 / 3) [''good'', ''fair'', ''bad''] (one_ton_wheat_sold ''bad'')"
    by auto
  have "spec_extensive_objective (\<lambda>s. 1 / 3) [''good'', ''fair'', ''bad''] (one_ton_wheat_sold ''bad'') = - 170 / 3"
    by (simp add: spec_extensive_objective_def spec_planting_cost_def spec_selling_revenue_def
        spec_purchasing_cost_def one_ton_wheat_sold_def)
  with m v show ?thesis by simp
qed

text \<open>
  C1 as stated fails for a scenario set of another size. With the single scenario good
  at probability 1 and one ton of wheat sold, the built objective is \<open>-170/3\<close> while
  the probability-weighted sum is \<open>-170\<close>.
\<close>

theorem extensive_objective_counterexample:
  "map_sum id (\<lambda>m. pyo_value (one_ton_wheat_sold ''good'') (obj m)) (extensive_model [''good''])
     = Inr (- 170 / 3) \<and>
   spec_extensive_objective certain [''good''] (one_ton_wheat_sold ''good'') = - 170"
  by (simp add: script_defs rule_defs spec_extensive_objective_def spec_planting_cost_def
      spec_selling_revenue_def spec_purchasing_cost_def one_ton_wheat_sold_def certain_def)

text \<open>
  C2, as the code has it. For a single weather label \<open>s\<close>, the model built from the
  list holding only \<open>s\<close> has the feasible region of the deterministic model of
  \<open>s\<close>, reading \<open>w[s,c]\<close>, \<open>y[s,c]\<close> as that model's \<open>w[c]\<close>, \<open>y[c]\<close>. Its
  objective is the planting cost plus one third of (purchasing cost minus selling
  revenue); the deterministic objective has the same terms with weight one.
\<close>

theorem single_scenario_feasible_region:
  assumes "s = ''good'' \<or> s = ''fair'' \<or> s = ''bad''"
  shows "\<exists>m m0. extensive_model [s] = Inr m \<and> deterministic_model_of s = Inr m0 \<and>
     feasible m b = feasible m0 (scenario_part s b) \<and>
     pyo_value b (obj m) =
       spec_planting_cost b + (1 / 3) * (- spec_selling_revenue b [s] + spec_purchasing_cost b [s]) \<and>
     pyo_value (scenario_part s b) (obj m0) =
       spec_planting_cost b - spec_selling_revenue b [s] + spec_purchasing_cost b [s]"
  using assms
  by (elim disjE;
      simp add: script_defs rule_defs feasible_def in_domain_def constraints_def
        scenario_part_def spec_planting_cost_def spec_selling_revenue_def spec_purchasing_cost_def;
      argo)

theorem single_scenario_feasible_region_witness:
  "(''fair'' = ''good'' \<or> ''fair'' = ''fair'' \<or> ''fair'' = ''bad'') \<and>
   (\<exists>m m0. extensive_model [''fair''] = Inr m \<and> deterministic_model_of ''fair'' = Inr m0 \<and>
     feasible m (one_ton_wheat_sold ''fair'') =
       feasible m0 (scenario_part ''fair'' (one_ton_wheat_sold ''fair'')) \<and>
     pyo_value (one_ton_wheat_sold ''fair'') (obj m) = - 170 / 3 \<and>
     pyo_value (scenario_part ''fair'' (one_ton_wheat_sold ''fair'')) (obj m0) = - 170)"
proof -
  from single_scenario_feasible_region[of "''fair''" "one_ton_wheat_sold ''fair''"]
  show ?thesis
    by (simp add: spec_planting_cost_def spec_selling_revenue_def spec_purchasing_cost_def
        one_ton_wheat_sold_def)
qed

text \<open>
  C2 as stated fails on the objective: for the single scenario good and one ton of
  wheat sold, the extensive-form objective is \<open>-170/3\<close> and the deterministic
  objective is \<open>-170\<close>.
\<close>

theorem single_scenario_objective_counterexample:
  "map_sum id (\<lambda>m. pyo_value (one_ton_wheat_sold ''good'') (obj m)) (extensive_model [''good''])
     = Inr (- 170 / 3) \<and>
   map_sum id (\<lambda>m. pyo_value (scenario_part ''good'' (one_ton_wheat_sold ''good'')) (obj m))
     (deterministic_model_of ''good'') = Inr (- 170)"
  by (simp add: script_defs rule_defs one_ton_wheat_sold_def scenario_part_def)

text \<open>
  C3, as the code has it. For the three scenarios good, fair and bad the builder makes
  3 shared land variables, 12 selling variables, 6 purchasing variables, one shared
  total-acreage constraint and 12 constraints indexed by scenario: 6 minimum
  requirements, 3 mass balances and 3 quotas. The total-acreage constraint is declared
  once and is not repeated per scenario.
\<close>

theorem three_scenarios_counts:
  "\<exists>m. extensive_model [''good'', ''fair'', ''bad''] = Inr m \<and>
     length (var_x m) = 3 \<and> distinct (var_x m) \<and>
     length (var_w m) = 12 \<and> distinct (var_w m) \<and>
     length (var_y m) = 6 \<and> distinct (var_y m) \<and>
     length (minimum_requirement m) = 6 \<and>
     length (sugar_beet_mass_balance m) = 3 \<and>
     length (sugar_beet_quota m) = 3 \<and>
     length (scenario_indexed_constraints m) = 12 \<and>
     map c_index (total_acreage_allowed m) = [[]]"
  by (simp add: script_defs rule_defs scenario_indexed_constraints_def)

text \<open>
  C3 as stated counts 15 scenario-indexed constraints; the model has 12.
\<close>

theorem three_scenarios_counts_counterexample:
  "map_sum id (\<lambda>m. length (scenario_indexed_constraints m))
     (extensive_model [''good'', ''fair'', ''bad'']) \<noteq> Inr 15"
  by (simp add: script_defs rule_defs scenario_indexed_constraints_def)

text \<open>
  C6, as the code has it. On an empty list of weathers nothing raises: the builder
  returns a model with the three land variables, no second-stage variable, the planting
  cost plus two empty weighted sums as objective, the total-acreage constraint and no
  other constraint.
\<close>

theorem empty_scenario_set_model:
  "extensive_model [] = Inr
     \<lparr> var_x = [[''wheat''], [''corn''], [''beets'']], var_w = [], var_y = [],
       m_planting_cost = None, m_selling_cost = None, m_puchasing_cost = None,
       obj = EAdd (EAdd (ESum [EMul (EVar Var_x [''wheat'']) (ENum 150),
                               EMul (EVar Var_x [''corn'']) (ENum 230),
                               EMul (EVar Var_x [''beets'']) (ENum 260)])
                        (EMul (ENum (- 1 / 3)) (ESum [])))
                  (EMul (ENum (1 / 3)) (ESum [])),
       total_acreage_allowed =
         [Constr [] (ELe (ESum [EVar Var_x [''wheat''], EVar Var_x [''corn''], EVar Var_x [''beets'']])
                         (ENum 500))],
       minimum_requirement = [], sugar_beet_mass_balance = [], sugar_beet_quota = [],
       mpisppy_node_list = [], mpisppy_probability = None \<rparr>"
  by (simp add: script_defs rule_defs)

text \<open>
  C6 as stated fails: building from the empty list is not an error.
\<close>

theorem empty_scenario_set_counterexample:
  "\<not> isl (extensive_model [])"
  by (simp add: script_defs rule_defs)

text \<open>
  C10. Building a deterministic or an extensive-form model leaves \<open>crop_yield\<close>,
  \<open>total_acres\<close>, \<open>planting_cost\<close>, \<open>selling_price\<close>, \<open>min_requirement\<close>,
  \<open>purchase_price\<close> and \<open>beets_quota\<close> as they were: the instance after the build is
  the instance before it with the new model attached.
\<close>

theorem builds_only_attach_model:
  "(Farmer_build_deterministic_model self = Inr self' \<longrightarrow>
      (\<exists>m. self' = self\<lparr>deterministic_model := Some m\<rparr>) \<and>
      crop_yield self' = crop_yield self \<and> total_acres self' = total_acres self \<and>
      planting_cost self' = planting_cost self \<and> selling_price self' = selling_price self \<and>
      min_requirement self' = min_requirement self \<and> purchase_price self' = purchase_price self \<and>
      beets_quota self' = beets_quota self) \<and>
   (build_extensive_form_model self = Inr self'' \<longrightarrow>
      (\<exists>m. self'' = self\<lparr>extensive_form_model := Some m\<rparr>) \<and>
      crop_yield self'' = crop_yield self \<and> total_acres self'' = total_acres self \<and>
      planting_cost self'' = planting_cost self \<and> selling_price self'' = selling_price self \<and>
      min_requirement self'' = min_requirement self \<and> purchase_price self'' = purchase_price self \<and>
      beets_quota self'' = beets_quota self)"
proof (intro conjI impI)
  assume "Farmer_build_deterministic_model self = Inr self'"
  from det_build_attaches[OF this] obtain m where m: "self' = self\<lparr>deterministic_model := Some m\<rparr>"
    by blast
  then show "\<exists>m. self' = self\<lparr>deterministic_model := Some m\<rparr>" by blast
  from m show "crop_yield self' = crop_yield self" "total_acres self' = total_acres self"
    "planting_cost self' = planting_cost self" "selling_price self' = selling_price self"
    "min_requirement self' = min_requirement self" "purchase_price self' = purchase_price self"
    "beets_quota self' = beets_quota self" by simp_all
next
  assume "build_extensive_form_model self = Inr self''"
  from ef_build_attaches[OF this] obtain m where m: "self'' = self\<lparr>extensive_form_model := Some m\<rparr>"
    by blast
  then show "\<exists>m. self'' = self\<lparr>extensive_form_model := Some m\<rparr>" by blast
  from m show "crop_yield self'' = crop_yield self" "total_acres self'' = total_acres self"
    "planting_cost self'' = planting_cost self" "selling_price self'' = selling_price self"
    "min_requirement self'' = min_requirement self" "purchase_price self'' = purchase_price self"
    "beets_quota self'' = beets_quota self" by simp_all
qed

theorem builds_only_attach_model_witness:
  "\<exists>self self' self2 self2'.
     Farmer_init (Str ''fair'') = Inr self \<and> Farmer_build_deterministic_model self = Inr self' \<and>
     (\<exists>m. self' = self\<lparr>deterministic_model := Some m\<rparr>) \<and> total_acres self' = 500 \<and>
     Farmer_init (Lst [''good'', ''fair'', ''bad'']) = Inr self2 \<and>
     build_extensive_form_model self2 = Inr self2' \<and>
     (\<exists>m. self2' = self2\<lparr>extensive_form_model := Some m\<rparr>) \<and> beets_quota self2' = 6000"
proof -
  obtain self where s: "Farmer_init (Str ''fair'') = Inr self"
    by (simp add: Farmer_init_def predicted_yield_step_def then_do_def)
  obtain self' where s': "Farmer_build_deterministic_model self = Inr self'"
    using s by (auto simp: Farmer_init_def Farmer_build_deterministic_model_def
        predicted_yield_step_def yields_at_def rule_defs)
  obtain self2 where s2: "Farmer_init (Lst [''good'', ''fair'', ''bad'']) = Inr self2"
    by (simp add: Farmer_init_def predicted_yield_step_def then_do_def)
  from extensive_objective[OF s2] obtain self2' where
    s2': "build_extensive_form_model self2 = Inr self2'" by blast
  have a: "total_acres self = 500" using s by (auto simp: Farmer_init_def then_do_def split: sum.splits)
  have q: "beets_quota self2 = 6000" using s2 by (auto simp: Farmer_init_def then_do_def split: sum.splits)
  from builds_only_attach_model[of self self'] builds_only_attach_model[of self2 _ self2'] s s' s2 s2' a q
  show ?thesis by metis
qed

section \<open>Scenario construction\<close>

text \<open>
  C5, as the code has it. No constructor validates its arguments and none raises an
  InvalidScenarioError. For each of the labels good, fair and bad the constructors of
  examples/farmer-extensive-form.py and mpi-sppy/farmer-3-scenarios.py succeed and hold
  that label's yields, the fair-weather yields times 1.2, 1.0 or 0.8; the constructor of
  mpi-sppy/farmer-n-scenarios-PH.py stores any probability unchecked.
\<close>

theorem recognized_labels_construct:
  "w \<in> {''good'', ''fair'', ''bad''} \<Longrightarrow>
   map_sum id crop_yield (Farmer_init (Str w)) =
     Inr (Single (yields_at (if w = ''good'' then 1.2 else if w = ''fair'' then 1 else 0.8))) \<and>
   map_prod (map_sum id crop_yield) id (Farmer_3 w g) =
     (Inr (Single (yields_at (if w = ''good'' then 1.2 else if w = ''fair'' then 1 else 0.8))),
      Some (if w = ''good'' then 1.2 else if w = ''fair'' then 1 else 0.8)) \<and>
   crop_yield (Farmer_PH q pr) = Single (yields_at q) \<and> probability (Farmer_PH q pr) = pr"
proof -
  assume w: "w \<in> {''good'', ''fair'', ''bad''}"
  have a: "predicted_yield_step None w =
      Some (if w = ''good'' then 1.2 else if w = ''fair'' then 1 else 0.8)"
    and b: "predicted_yield_step g w =
      Some (if w = ''good'' then 1.2 else if w = ''fair'' then 1 else 0.8)"
    using w by (rule recognized_multiplier)+
  show ?thesis
    by (simp add: Farmer_init_def Farmer_3_def Farmer_PH_def a b then_do_def)
qed

theorem recognized_labels_construct_witness:
  "''bad'' \<in> {''good'', ''fair'', ''bad''} \<and>
   map_sum id crop_yield (Farmer_init (Str ''bad'')) =
     Inr (Single [(''wheat'', 2), (''corn'', 2.4), (''beets'', 16)]) \<and>
   map_prod (map_sum id crop_yield) id (Farmer_3 ''bad'' None) =
     (Inr (Single [(''wheat'', 2), (''corn'', 2.4), (''beets'', 16)]), Some 0.8) \<and>
   probability (Farmer_PH 1 (1 / 3)) = 1 / 3"
  using recognized_labels_construct[of "''bad''" None 1 "1 / 3"]
  by (simp add: yields_at_def)

text \<open>
  C5 as stated fails. An unrecognized label after a recognized one is accepted, in the
  list constructor and through the global of mpi-sppy/farmer-3-scenarios.py; a single
  unrecognized label fails on the unbound local, which is no InvalidScenarioError; a
  probability of zero or below is stored as given.
\<close>

theorem construction_validation_counterexample:
  "\<not> isl (Farmer_init (Lst [''good'', ''stormy''])) \<and>
   \<not> isl (fst (Farmer_3 ''stormy'' (Some 1.2))) \<and>
   Farmer_init (Str ''stormy'') = Inl UnboundLocalError \<and>
   probability (Farmer_PH 1 0) = 0 \<and>
   probability (Farmer_PH 1 (- 1)) = - 1"
  by (simp add: Farmer_init_def Farmer_3_def Farmer_PH_def predicted_yield_step_def then_do_def)

end
